theory Spec2Isabelle
  imports Complex_Main "HOL-Library.Word"
begin

section \<open>JavaScript strings\<close>

text \<open>
  A JavaScript string is a sequence of UTF-16 code units; \<^verbatim>\<open>text.length\<close> counts them.
  ASCII literals of the source are written with \<open>str\<close>.
\<close>

type_synonym code_unit = "16 word"
type_synonym jsstring = "code_unit list"

definition str :: "string \<Rightarrow> jsstring" where
  "str s = map of_char s"

definition newline :: code_unit where
  "newline = 0x0A"

definition comma :: code_unit where
  "comma = 0x2C"

text \<open>
  The code units removed by \<^verbatim>\<open>String.prototype.trim\<close>: the WhiteSpace and
  LineTerminator productions of ECMAScript (tab, vertical tab, form feed, space,
  no-break space, the byte order mark, the Unicode space separators, line feed,
  carriage return, line separator, paragraph separator).
\<close>

definition is_whitespace :: "code_unit \<Rightarrow> bool" where
  "is_whitespace c \<longleftrightarrow>
     c = 0x09 \<or> c = 0x0A \<or> c = 0x0B \<or> c = 0x0C \<or> c = 0x0D \<or> c = 0x20 \<or> c = 0xA0 \<or>
     c = 0x1680 \<or> (0x2000 \<le> c \<and> c \<le> 0x200A) \<or> c = 0x2028 \<or> c = 0x2029 \<or>
     c = 0x202F \<or> c = 0x205F \<or> c = 0x3000 \<or> c = 0xFEFF"

text \<open>\<^verbatim>\<open>s.trim()\<close>: white space is dropped at both ends.\<close>

definition trim :: "jsstring \<Rightarrow> jsstring" where
  "trim s = rev (dropWhile is_whitespace (rev (dropWhile is_whitespace s)))"

text \<open>
  \<^verbatim>\<open>s.split(sep)\<close> for a separator of one code unit: the pieces between the
  occurrences of the separator. The empty string gives one empty piece.
\<close>

fun js_split :: "code_unit \<Rightarrow> jsstring \<Rightarrow> jsstring list" where
  "js_split sep [] = [[]]"
| "js_split sep (c # cs) =
     (if c = sep then [] # js_split sep cs
      else (case js_split sep cs of
              [] \<Rightarrow> [[c]]
            | piece # pieces \<Rightarrow> (c # piece) # pieces))"

section \<open>CSV ingestion\<close>

datatype js_error = TypeError | SyntaxError | NetworkError

text \<open>
  A row object \<^verbatim>\<open>{} as Record<string, any>\<close> holds its own properties, here all
  strings. The assignment \<^verbatim>\<open>obj[header] = v\<close> creates or overwrites the own property
  \<open>header\<close>, except for the name \<^verbatim>\<open>__proto__\<close>: that assignment reaches the accessor
  inherited from \<^verbatim>\<open>Object.prototype\<close>, whose setter ignores a value that is neither
  an object nor null, so the object is left as it was.
\<close>

type_synonym row = "jsstring \<rightharpoonup> jsstring"

definition obj_set :: "row \<Rightarrow> jsstring \<Rightarrow> jsstring \<Rightarrow> row" where
  "obj_set obj key v = (if key = str ''__proto__'' then obj else obj(key \<mapsto> v))"

text \<open>\<^verbatim>\<open>values[idx] || ''\<close>: an index out of range reads \<^verbatim>\<open>undefined\<close>, which is falsy,
  as is the empty string.\<close>

definition value_or_empty :: "jsstring list \<Rightarrow> nat \<Rightarrow> jsstring" where
  "value_or_empty values idx = (if idx < length values then values ! idx else [])"

text \<open>The interface \<^verbatim>\<open>FileData\<close>; its field \<^verbatim>\<open>size\<close> is \<open>size_chars\<close> here.\<close>

record FileData =
  name :: jsstring
  size_chars :: nat
  rows :: nat
  columns :: nat
  headers :: "jsstring list"
  preview :: "row list"

text \<open>The callback of \<^verbatim>\<open>lines.slice(1).map\<close> in \<^verbatim>\<open>src/app/page.tsx\<close>: one row object
  per line, built by \<^verbatim>\<open>headers.reduce\<close> from left to right.\<close>

definition row_of :: "jsstring list \<Rightarrow> jsstring \<Rightarrow> row" where
  "row_of hdrs line =
     (let values = map trim (js_split comma line)
      in fold (\<lambda>(idx, header) obj. obj_set obj header (value_or_empty values idx))
           (enumerate 0 hdrs) Map.empty)"

text \<open>\<^verbatim>\<open>parseCSV\<close> of \<^verbatim>\<open>src/app/page.tsx\<close>. Reading \<^verbatim>\<open>lines[0]\<close> of an empty
  array gives \<^verbatim>\<open>undefined\<close>, and \<^verbatim>\<open>undefined.split\<close> throws a TypeError.\<close>

definition parseCSV :: "jsstring \<Rightarrow> jsstring \<Rightarrow> js_error + FileData" where
  "parseCSV text fileName =
     (let lines = js_split newline (trim text)
      in case lines of
           [] \<Rightarrow> Inl TypeError
         | first # _ \<Rightarrow>
             (let hdrs = map trim (js_split comma first);
                  data = map (row_of hdrs) (drop 1 lines)
              in Inr \<lparr>name = fileName,
                      size_chars = length text,
                      rows = length data,
                      columns = length hdrs,
                      headers = hdrs,
                      preview = take 10 data\<rparr>))"

section \<open>Values of the analysis service\<close>

text \<open>
  What \<^verbatim>\<open>response.json()\<close> and \<^verbatim>\<open>JSON.parse\<close> return is a JSON value; a property
  read may also give \<^verbatim>\<open>undefined\<close>. An object is the list of its own properties
  (first entry of a name is the one read). A number is the real number the double
  denotes; the infinities and the rounding of a quotient are not modelled.
\<close>

datatype jsval =
    JUndefined
  | JNull
  | JBool bool
  | JNum real
  | JStr jsstring
  | JArr "jsval list"
  | JObj "(jsstring \<times> jsval) list"

datatype js_number = Number real | NaN

text \<open>ToBoolean: \<^verbatim>\<open>undefined\<close>, \<^verbatim>\<open>null\<close>, \<^verbatim>\<open>false\<close>, zero and the empty string
  are falsy, every array and object is truthy.\<close>

fun truthy :: "jsval \<Rightarrow> bool" where
  "truthy JUndefined = False"
| "truthy JNull = False"
| "truthy (JBool b) = b"
| "truthy (JNum r) = (r \<noteq> 0)"
| "truthy (JStr s) = (s \<noteq> [])"
| "truthy (JArr xs) = True"
| "truthy (JObj props) = True"

text \<open>\<^verbatim>\<open>a || b\<close>\<close>

definition js_or :: "jsval \<Rightarrow> jsval \<Rightarrow> jsval" where
  "js_or a b = (if truthy a then a else b)"

definition nullish :: "jsval \<Rightarrow> bool" where
  "nullish v \<longleftrightarrow> v = JUndefined \<or> v = JNull"

text \<open>
  \<^verbatim>\<open>v.key\<close> on a value that is neither \<^verbatim>\<open>undefined\<close> nor \<^verbatim>\<open>null\<close>, for the names
  the page reads (\<^verbatim>\<open>success\<close>, \<^verbatim>\<open>response\<close>, \<^verbatim>\<open>summary\<close>, \<^verbatim>\<open>completenessScore\<close>,
  \<^verbatim>\<open>dataQuality\<close>, \<^verbatim>\<open>statistics\<close>, \<^verbatim>\<open>correlations\<close>, \<^verbatim>\<open>patterns\<close>, \<^verbatim>\<open>insights\<close>):
  none of them is a member of a built-in prototype, so only an object's own
  property is found.
\<close>

fun member :: "jsval \<Rightarrow> jsstring \<Rightarrow> jsval" where
  "member (JObj props) key = (case map_of props key of Some v \<Rightarrow> v | None \<Rightarrow> JUndefined)"
| "member v key = JUndefined"

text \<open>\<^verbatim>\<open>v?.key\<close>\<close>

definition opt_member :: "jsval \<Rightarrow> jsstring \<Rightarrow> jsval" where
  "opt_member v key = (if nullish v then JUndefined else member v key)"

text \<open>
  ToNumber, applied by the division. The conversion of a string, an array or an
  object (which parses a numeric literal, joins elements, or calls \<^verbatim>\<open>valueOf\<close> and
  \<^verbatim>\<open>toString\<close>, and may throw) is the parameter \<open>coerce\<close>.
\<close>

fun ToNumber :: "(jsval \<Rightarrow> js_error + js_number) \<Rightarrow> jsval \<Rightarrow> js_error + js_number" where
  "ToNumber coerce JUndefined = Inr NaN"
| "ToNumber coerce JNull = Inr (Number 0)"
| "ToNumber coerce (JBool b) = Inr (Number (if b then 1 else 0))"
| "ToNumber coerce (JNum r) = Inr (Number r)"
| "ToNumber coerce v = coerce v"

text \<open>\<^verbatim>\<open>x / 100\<close>\<close>

fun div_100 :: "js_number \<Rightarrow> js_number" where
  "div_100 (Number r) = Number (r / 100)"
| "div_100 NaN = NaN"

text \<open>Decimal digits of a natural number.\<close>

definition digit :: "nat \<Rightarrow> code_unit" where
  "digit d = 0x30 + of_nat d"

fun decimal :: "nat \<Rightarrow> jsstring" where
  "decimal n = (if n < 10 then [digit n] else decimal (n div 10) @ [digit (n mod 10)])"

text \<open>
  \<^verbatim>\<open>x.toFixed(2)\<close> for \<open>0 \<le> x < 10^21\<close>: the integer \<open>n\<close> with \<open>n / 100\<close> nearest to
  \<open>x\<close>, the larger one of two, written with two fraction digits.
\<close>

definition toFixed2 :: "real \<Rightarrow> jsstring" where
  "toFixed2 x =
     (let n = nat \<lfloor>x * 100 + 1 / 2\<rfloor>
      in decimal (n div 100) @ str ''.'' @ [digit (n mod 100 div 10), digit (n mod 10)])"

record Summary =
  totalRows :: nat
  totalColumns :: nat
  completenessScore :: js_number
  memorySize :: jsstring

record AnalysisResult =
  summary :: Summary
  dataQuality :: jsval
  statistics :: jsval
  correlations :: jsval
  patterns :: jsval
  insights :: jsval

text \<open>
  The object literal \<^verbatim>\<open>analysisData\<close> of \<^verbatim>\<open>analyzeData\<close> in \<^verbatim>\<open>src/app/page.tsx\<close>, as a
  function of \<^verbatim>\<open>parsedData\<close> and \<^verbatim>\<open>fileData\<close> (here \<open>file_data\<close>). Its first property read,
  \<^verbatim>\<open>parsedData.summary\<close>, throws a TypeError on \<^verbatim>\<open>null\<close>. The file size divided by
  1024 is exact in a double.
\<close>

definition analysisData ::
  "(jsval \<Rightarrow> js_error + js_number) \<Rightarrow> jsval \<Rightarrow> FileData \<Rightarrow> js_error + AnalysisResult" where
  "analysisData coerce parsedData file_data =
     (if nullish parsedData then Inl TypeError
      else
        (case ToNumber coerce
                (js_or (opt_member (member parsedData (str ''summary'')) (str ''completenessScore''))
                   (JNum 85)) of
           Inl e \<Rightarrow> Inl e
         | Inr score \<Rightarrow>
             Inr \<lparr>summary =
                    \<lparr>totalRows = rows file_data,
                     totalColumns = columns file_data,
                     completenessScore = div_100 score,
                     memorySize = toFixed2 (real (size_chars file_data) / 1024) @ str '' KB''\<rparr>,
                  dataQuality =
                    js_or (member parsedData (str ''dataQuality''))
                      (JObj [(str ''missingValues'', JObj []),
                             (str ''duplicateRows'', JNum 0),
                             (str ''dataTypeIssues'', JArr [])]),
                  statistics = js_or (member parsedData (str ''statistics'')) (JObj []),
                  correlations = js_or (member parsedData (str ''correlations'')) (JArr []),
                  patterns =
                    js_or (member parsedData (str ''patterns''))
                      (JObj [(str ''trends'', JArr []),
                             (str ''distributions'', JObj []),
                             (str ''outliers'', JArr [])]),
                  insights = js_or (member parsedData (str ''insights'')) (JArr [])\<rparr>))"

section \<open>The page and its handlers\<close>

record page_state =
  fileData :: "FileData option"
  analysis :: "AnalysisResult option"
  loading :: bool
  error :: "jsstring option"
  activeTab :: jsstring

text \<open>
  \<^verbatim>\<open>handleFileUpload\<close> with the \<^verbatim>\<open>onload\<close> callback of its reader: the file, when
  there is one, is its name and its text.
\<close>

definition handleFileUpload :: "(jsstring \<times> jsstring) option \<Rightarrow> page_state \<Rightarrow> page_state" where
  "handleFileUpload file st =
     (case file of
        None \<Rightarrow> st
      | Some (file_name, text) \<Rightarrow>
          (let st1 = st\<lparr>error := None\<rparr>
           in case parseCSV text file_name of
                Inr parsed \<Rightarrow> st1\<lparr>fileData := Some parsed, analysis := None\<rparr>
              | Inl err \<Rightarrow>
                  st1\<lparr>error :=
                    Some (str ''Failed to parse CSV file. Please ensure it has valid CSV format.'')\<rparr>))"

text \<open>
  What the network gives back to \<^verbatim>\<open>analyzeData\<close>: \<^verbatim>\<open>fetch\<close> rejects, or
  \<^verbatim>\<open>response.json()\<close> rejects, or the body decodes to a value.
\<close>

datatype fetch_outcome = FetchRejected | BodyRejected | Body jsval

text \<open>
  \<^verbatim>\<open>typeof data.response === 'string' ? JSON.parse(data.response) : data.response\<close>,
  with \<^verbatim>\<open>JSON.parse\<close> as the parameter \<open>JSON_parse\<close> (\<open>Inl\<close> when it throws).
\<close>

definition parsedData_of :: "(jsstring \<Rightarrow> js_error + jsval) \<Rightarrow> jsval \<Rightarrow> js_error + jsval" where
  "parsedData_of JSON_parse response =
     (case response of
        JStr s \<Rightarrow> JSON_parse s
      | v \<Rightarrow> Inr v)"

text \<open>
  The \<^verbatim>\<open>try\<close> block of \<^verbatim>\<open>analyzeData\<close>: \<open>Inl\<close> is an exception reaching \<^verbatim>\<open>catch\<close>.
  The request text is built from the preview without throwing and has no effect on
  the state; the answer is \<open>outcome\<close>. The handler is one step of the model: what
  other handlers do while the request is in flight is not part of it.
\<close>

definition analyze_try ::
  "(jsstring \<Rightarrow> js_error + jsval) \<Rightarrow> (jsval \<Rightarrow> js_error + js_number) \<Rightarrow>
   fetch_outcome \<Rightarrow> FileData \<Rightarrow> page_state \<Rightarrow> js_error + page_state" where
  "analyze_try JSON_parse coerce outcome fd st =
     (case outcome of
        FetchRejected \<Rightarrow> Inl NetworkError
      | BodyRejected \<Rightarrow> Inl SyntaxError
      | Body data \<Rightarrow>
          if nullish data then Inl TypeError
          else if truthy (member data (str ''success'')) \<and> truthy (member data (str ''response''))
          then
            (case parsedData_of JSON_parse (member data (str ''response'')) of
               Inl e \<Rightarrow> Inl e
             | Inr parsedData \<Rightarrow>
                 (case analysisData coerce parsedData fd of
                    Inl e \<Rightarrow> Inl e
                  | Inr a \<Rightarrow> Inr (st\<lparr>analysis := Some a, activeTab := str ''summary''\<rparr>)))
          else Inr (st\<lparr>error := Some (str ''Failed to analyze data. Please try again.'')\<rparr>))"

definition analyzeData ::
  "(jsstring \<Rightarrow> js_error + jsval) \<Rightarrow> (jsval \<Rightarrow> js_error + js_number) \<Rightarrow>
   fetch_outcome \<Rightarrow> page_state \<Rightarrow> page_state" where
  "analyzeData JSON_parse coerce outcome st =
     (case fileData st of
        None \<Rightarrow> st
      | Some fd \<Rightarrow>
          (let st1 = st\<lparr>loading := True, error := None\<rparr>;
               st2 = (case analyze_try JSON_parse coerce outcome fd st1 of
                        Inr st' \<Rightarrow> st'
                      | Inl err \<Rightarrow>
                          st1\<lparr>error := Some (str ''Error analyzing data. Please try again.'')\<rparr>)
           in st2\<lparr>loading := False\<rparr>))"

section \<open>The second page variant\<close>

text \<open>The same functions as written in \<^verbatim>\<open>src/unnamed/part_000\<close>.\<close>

definition row_of_alt :: "jsstring list \<Rightarrow> jsstring \<Rightarrow> row" where
  "row_of_alt hdrs line =
     (let values = map trim (js_split comma line)
      in fold (\<lambda>(idx, header) obj. obj_set obj header (value_or_empty values idx))
           (enumerate 0 hdrs) Map.empty)"

definition parseCSV_alt :: "jsstring \<Rightarrow> jsstring \<Rightarrow> js_error + FileData" where
  "parseCSV_alt text fileName =
     (let lines = js_split newline (trim text)
      in case lines of
           [] \<Rightarrow> Inl TypeError
         | first # _ \<Rightarrow>
             (let hdrs = map trim (js_split comma first);
                  data = map (row_of_alt hdrs) (drop 1 lines)
              in Inr \<lparr>name = fileName,
                      size_chars = length text,
                      rows = length data,
                      columns = length hdrs,
                      headers = hdrs,
                      preview = take 10 data\<rparr>))"

definition analysisData_alt ::
  "(jsval \<Rightarrow> js_error + js_number) \<Rightarrow> jsval \<Rightarrow> FileData \<Rightarrow> js_error + AnalysisResult" where
  "analysisData_alt coerce parsedData file_data =
     (if nullish parsedData then Inl TypeError
      else
        (case ToNumber coerce
                (js_or (opt_member (member parsedData (str ''summary'')) (str ''completenessScore''))
                   (JNum 85)) of
           Inl e \<Rightarrow> Inl e
         | Inr score \<Rightarrow>
             Inr \<lparr>summary =
                    \<lparr>totalRows = rows file_data,
                     totalColumns = columns file_data,
                     completenessScore = div_100 score,
                     memorySize = toFixed2 (real (size_chars file_data) / 1024) @ str '' KB''\<rparr>,
                  dataQuality =
                    js_or (member parsedData (str ''dataQuality''))
                      (JObj [(str ''missingValues'', JObj []),
                             (str ''duplicateRows'', JNum 0),
                             (str ''dataTypeIssues'', JArr [])]),
                  statistics = js_or (member parsedData (str ''statistics'')) (JObj []),
                  correlations = js_or (member parsedData (str ''correlations'')) (JArr []),
                  patterns =
                    js_or (member parsedData (str ''patterns''))
                      (JObj [(str ''trends'', JArr []),
                             (str ''distributions'', JObj []),
                             (str ''outliers'', JArr [])]),
                  insights = js_or (member parsedData (str ''insights'')) (JArr [])\<rparr>))"

section \<open>Inputs used in the examples\<close>

text \<open>A text of a header line and eleven data lines, with no white space at its ends.\<close>

definition eleven_rows_text :: jsstring where
  "eleven_rows_text =
     str ''id,v'' @ [newline] @ str ''1,a'' @ [newline] @ str ''2,b'' @ [newline] @
     str ''3,c'' @ [newline] @ str ''4,d'' @ [newline] @ str ''5,e'' @ [newline] @
     str ''6,f'' @ [newline] @ str ''7,g'' @ [newline] @ str ''8,h'' @ [newline] @
     str ''9,i'' @ [newline] @ str ''10,j'' @ [newline] @ str ''11,k''"

text \<open>The state the \<^verbatim>\<open>useState\<close> calls of \<^verbatim>\<open>HomePage\<close> start from.\<close>

definition initial_state :: page_state where
  "initial_state =
     \<lparr>fileData = None, analysis = None, loading = False, error = None,
      activeTab = str ''summary''\<rparr>"

text \<open>A page that holds a file of 2048 characters and an analysis committed earlier.\<close>

definition example_file :: FileData where
  "example_file =
     \<lparr>name = str ''t.csv'', size_chars = 2048, rows = 40, columns = 2,
      headers = [str ''a'', str ''b''], preview = replicate 10 [str ''a'' \<mapsto> str ''1'', str ''b'' \<mapsto> str ''2'']\<rparr>"

definition example_result :: AnalysisResult where
  "example_result =
     \<lparr>summary =
        \<lparr>totalRows = 40, totalColumns = 2, completenessScore = Number 1,
         memorySize = str ''2.00 KB''\<rparr>,
      dataQuality = JObj [], statistics = JObj [], correlations = JArr [],
      patterns = JObj [], insights = JArr []\<rparr>"

definition example_state :: page_state where
  "example_state = initial_state\<lparr>fileData := Some example_file, analysis := Some example_result\<rparr>"

section \<open>Facts about the string operations\<close>

lemma js_split_not_Nil: "js_split sep s \<noteq> []"
  by (induction s) (auto split: list.splits)

text \<open>\<^verbatim>\<open>parseCSV\<close> never reaches its failing branch; its result in closed form.\<close>

lemma parseCSV_Inr:
  "parseCSV text file_name =
     Inr \<lparr>name = file_name,
          size_chars = length text,
          rows = length (tl (js_split newline (trim text))),
          columns = length (js_split comma (hd (js_split newline (trim text)))),
          headers = map trim (js_split comma (hd (js_split newline (trim text)))),
          preview = take 10 (map (row_of (map trim (js_split comma (hd (js_split newline (trim text))))))
                      (tl (js_split newline (trim text))))\<rparr>"
proof (cases "js_split newline (trim text)")
  case Nil
  then show ?thesis by (simp add: js_split_not_Nil)
next
  case (Cons first others)
  then show ?thesis by (simp add: parseCSV_def Let_def drop_Suc)
qed

section \<open>Facts about row objects\<close>

lemma fold_row_other:
  "k \<notin> set hdrs \<Longrightarrow>
   fold (\<lambda>(idx, header) obj. obj_set obj header (value_or_empty values idx))
     (enumerate n hdrs) obj k = obj k"
  by (induction hdrs arbitrary: n obj) (auto simp: obj_set_def)

lemma fold_row_last:
  "i < length hdrs \<Longrightarrow> hdrs ! i = k \<Longrightarrow> k \<noteq> str ''__proto__'' \<Longrightarrow>
   \<forall>j. i < j \<and> j < length hdrs \<longrightarrow> hdrs ! j \<noteq> k \<Longrightarrow>
   fold (\<lambda>(idx, header) obj. obj_set obj header (value_or_empty values idx))
     (enumerate n hdrs) obj k = Some (value_or_empty values (n + i))"
proof (induction hdrs arbitrary: n obj i)
  case Nil
  then show ?case by simp
next
  case (Cons h hs)
  show ?case
  proof (cases i)
    case 0
    have "k \<notin> set hs"
    proof
      assume "k \<in> set hs"
      then obtain j where "j < length hs" "hs ! j = k" by (auto simp: in_set_conv_nth)
      with Cons.prems(4) 0 show False by (auto dest: spec [of _ "Suc j"])
    qed
    then have
      "fold (\<lambda>(idx, header) obj. obj_set obj header (value_or_empty values idx))
         (enumerate (Suc n) hs) (obj_set obj h (value_or_empty values n)) k =
       obj_set obj h (value_or_empty values n) k"
      by (rule fold_row_other)
    with Cons.prems 0 show ?thesis
      by (simp add: obj_set_def)
  next
    case (Suc i')
    have "\<forall>j. i' < j \<and> j < length hs \<longrightarrow> hs ! j \<noteq> k"
      using Cons.prems(4) Suc by (auto dest: spec [of _ "Suc j" for j])
    with Cons.prems Suc have
      "fold (\<lambda>(idx, header) obj. obj_set obj header (value_or_empty values idx))
         (enumerate (Suc n) hs) (obj_set obj h (value_or_empty values n)) k =
       Some (value_or_empty values (Suc n + i'))"
      by (intro Cons.IH) auto
    with Suc show ?thesis by simp
  qed
qed

lemma dom_fold_row:
  "dom (fold (\<lambda>(idx, header) obj. obj_set obj header (value_or_empty values idx))
          (enumerate n hdrs) obj) = dom obj \<union> (set hdrs - {str ''__proto__''})"
  by (induction hdrs arbitrary: n obj) (auto simp: obj_set_def)

text \<open>
  For every header other than \<^verbatim>\<open>__proto__\<close> the row is what the specification says:
  its keys are the headers, a header is bound to the trimmed value at the last
  position where it occurs, and to the empty string when the line has no value there.
\<close>

lemma row_of_keys: "dom (row_of hdrs line) = set hdrs - {str ''__proto__''}"
  by (simp add: row_of_def dom_fold_row)

lemma row_of_last_wins:
  "i < length hdrs \<Longrightarrow> hdrs ! i \<noteq> str ''__proto__'' \<Longrightarrow>
   \<forall>j. i < j \<and> j < length hdrs \<longrightarrow> hdrs ! j \<noteq> hdrs ! i \<Longrightarrow>
   row_of hdrs line (hdrs ! i) = Some (value_or_empty (map trim (js_split comma line)) i)"
  using fold_row_last [of i hdrs "hdrs ! i" "map trim (js_split comma line)" 0 Map.empty]
  by (simp add: row_of_def)

lemma value_or_empty_trimmed:
  "value_or_empty (map trim vs) i = (if i < length vs then trim (vs ! i) else [])"
  by (simp add: value_or_empty_def)

lemma row_of_alt_eq: "row_of_alt = row_of"
  by (simp add: fun_eq_iff row_of_alt_def row_of_def)

section \<open>Facts about the normalizer\<close>

text \<open>The rounding of \<^verbatim>\<open>toFixed(2)\<close> on a file size, in integer arithmetic.\<close>

lemma toFixed2_nat:
  "toFixed2 (real n / 1024) =
     (let m = (n * 100 + 512) div 1024
      in decimal (m div 100) @ str ''.'' @ [digit (m mod 100 div 10), digit (m mod 10)])"
proof -
  have "real n / 1024 * 100 + 1 / 2 = real (n * 100 + 512) / real 1024"
    by (simp add: field_simps)
  then have "\<lfloor>real n / 1024 * 100 + 1 / 2\<rfloor> = int ((n * 100 + 512) div 1024)"
    by (simp only: floor_divide_of_nat_eq)
  then show ?thesis by (simp add: toFixed2_def Let_def)
qed

text \<open>The integer printed is the number of hundredths of a kilobyte nearest to the size.\<close>

lemma hundredths_nearest:
  "\<bar>real ((n * 100 + 512) div 1024) / 100 - real n / 1024\<bar> \<le> 1 / 200"
proof -
  define m where "m = (n * 100 + 512) div 1024"
  have "(n * 100 + 512) mod 1024 < 1024"
    by simp
  moreover have "n * 100 + 512 = 1024 * m + (n * 100 + 512) mod 1024"
    unfolding m_def by simp
  ultimately have "1024 * m \<le> n * 100 + 512" and "n * 100 + 512 < 1024 * m + 1024"
    by linarith+
  then have "1024 * real m \<le> real n * 100 + 512" and "real n * 100 + 512 < 1024 * real m + 1024"
    by linarith+
  then have "\<bar>real m / 100 - real n / 1024\<bar> \<le> 1 / 200"
    by linarith
  then show ?thesis by (simp only: m_def)
qed

lemma toFixed2_values:
  "toFixed2 (real 0 / 1024) = str ''0.00''"
  "toFixed2 (real 128 / 1024) = str ''0.13''"
  "toFixed2 (real 1500 / 1024) = str ''1.46''"
  "toFixed2 (real 2048 / 1024) = str ''2.00''"
  "toFixed2 (real 1048576 / 1024) = str ''1024.00''"
  by (simp_all only: toFixed2_nat) (simp_all add: str_def digit_def Let_def)

lemma memorySize_empty_payload:
  "memorySize (summary (projr (analysisData coerce (JObj []) fd))) =
     toFixed2 (real (size_chars fd) / 1024) @ str '' KB''"
  by (simp add: analysisData_def nullish_def js_or_def opt_member_def)

text \<open>The score is the default when the payload has none, and the hundredth of a
  number other than zero.\<close>

lemma completenessScore_absent:
  "\<not> nullish parsedData \<Longrightarrow>
   opt_member (member parsedData (str ''summary'')) (str ''completenessScore'') = JUndefined \<Longrightarrow>
   \<exists>r. analysisData coerce parsedData fd = Inr r \<and>
       completenessScore (summary r) = Number 0.85"
  by (simp add: analysisData_def js_or_def)

lemma completenessScore_nonzero:
  "\<not> nullish parsedData \<Longrightarrow>
   opt_member (member parsedData (str ''summary'')) (str ''completenessScore'') = JNum v \<Longrightarrow>
   v \<noteq> 0 \<Longrightarrow>
   \<exists>r. analysisData coerce parsedData fd = Inr r \<and>
       completenessScore (summary r) = Number (v / 100)"
  by (simp add: analysisData_def js_or_def)

lemma analysis_analyzeData:
  "analysis (analyzeData JSON_parse coerce outcome st) =
     (case fileData st of
        None \<Rightarrow> analysis st
      | Some fd \<Rightarrow>
          (case analyze_try JSON_parse coerce outcome fd (st\<lparr>loading := True, error := None\<rparr>) of
             Inr st' \<Rightarrow> analysis st'
           | Inl err \<Rightarrow> analysis st))"
  by (simp add: analyzeData_def Let_def split: option.splits sum.splits)

section \<open>The claims\<close>

text \<open>
  C1 (as amended). \<^verbatim>\<open>parseCSV\<close> always returns a FileData whose preview has
  \<open>min rows 10\<close> entries. When the text, with the white space at both ends removed
  as \<^verbatim>\<open>text.trim()\<close> does, is a header line followed by \<open>K\<close> data lines, then
  \<open>rows = K\<close> and the preview has \<open>min K 10\<close> entries.
\<close>

theorem parseCSV_rows_preview:
  "\<exists>fd. parseCSV text file_name = Inr fd \<and>
        length (preview fd) = min (rows fd) 10 \<and>
        (js_split newline (trim text) = header_line # data_lines \<longrightarrow>
           rows fd = length data_lines \<and>
           length (preview fd) = min (length data_lines) 10)"
  by (auto simp: parseCSV_Inr)

theorem parseCSV_rows_preview_witness:
  "js_split newline (trim eleven_rows_text) =
     hd (js_split newline (trim eleven_rows_text)) # tl (js_split newline (trim eleven_rows_text)) \<and>
   length (tl (js_split newline (trim eleven_rows_text))) = 11 \<and>
   (\<exists>fd. parseCSV eleven_rows_text (str ''t.csv'') = Inr fd \<and> rows fd = 11 \<and>
         length (preview fd) = 10)"
proof -
  have a: "trim eleven_rows_text = eleven_rows_text"
    by (simp add: eleven_rows_text_def trim_def str_def newline_def is_whitespace_def)
  have b: "js_split newline (trim eleven_rows_text) =
             hd (js_split newline (trim eleven_rows_text)) #
             tl (js_split newline (trim eleven_rows_text))"
    by (simp add: js_split_not_Nil)
  have c: "length (tl (js_split newline (trim eleven_rows_text))) = 11"
    unfolding a by (simp add: eleven_rows_text_def str_def newline_def)
  from parseCSV_rows_preview [of eleven_rows_text "str ''t.csv''"
      "hd (js_split newline (trim eleven_rows_text))"
      "tl (js_split newline (trim eleven_rows_text))"] b c
  show ?thesis by auto
qed

text \<open>
  C1 as the specification states it fails on the text \<^verbatim>\<open>a\n\n1\n\n\<close>: split at its
  newlines it is the header \<^verbatim>\<open>a\<close> followed by four lines (empty, \<^verbatim>\<open>1\<close>, empty, empty),
  and \<^verbatim>\<open>parseCSV\<close> reports two rows. (Counting newline-terminated lines gives three
  data lines, counting lines that are not blank gives one: neither is two.)
\<close>

theorem parseCSV_rows_counterexample:
  "js_split newline (str ''a'' @ [newline, newline] @ str ''1'' @ [newline, newline]) =
     str ''a'' # [[], str ''1'', [], []] \<and>
   isl (parseCSV (str ''a'' @ [newline, newline] @ str ''1'' @ [newline, newline]) (str ''t.csv'')) =
     False \<and>
   rows (projr (parseCSV (str ''a'' @ [newline, newline] @ str ''1'' @ [newline, newline])
                  (str ''t.csv''))) = 2 \<and>
   length [[], str ''1'', [], []] \<noteq> (2 :: nat)"
  by (simp add: parseCSV_Inr) (simp add: str_def newline_def trim_def is_whitespace_def)

text \<open>
  C2 (the code departs from the claim). A score of 0 in the payload is present, and
  the claim gives \<open>0 / 100\<close>; \<^verbatim>\<open>||\<close> takes 0 for a missing value and the result
  is 0.85.
\<close>

theorem completenessScore_zero:
  "isl (analysisData coerce
          (JObj [(str ''summary'', JObj [(str ''completenessScore'', JNum 0)])]) fd) = False \<and>
   completenessScore (summary (projr (analysisData coerce
          (JObj [(str ''summary'', JObj [(str ''completenessScore'', JNum 0)])]) fd))) =
     Number 0.85 \<and>
   Number 0.85 \<noteq> Number (0 / 100)"
  by (simp add: analysisData_def nullish_def js_or_def opt_member_def str_def)

text \<open>
  C3. Whatever payload the normalizer accepts, \<open>totalRows\<close> and \<open>totalColumns\<close> of
  its result are the \<open>rows\<close> and \<open>columns\<close> of the FileData; two payloads (and two
  coercions) give the same two fields.
\<close>

theorem analysisData_counts_from_file:
  "analysisData coerce parsedData fd = Inr r \<Longrightarrow>
   analysisData coerce' parsedData' fd = Inr r' \<Longrightarrow>
   totalRows (summary r) = rows fd \<and> totalColumns (summary r) = columns fd \<and>
   totalRows (summary r') = totalRows (summary r) \<and>
   totalColumns (summary r') = totalColumns (summary r)"
  by (auto simp: analysisData_def split: if_splits sum.splits)

theorem analysisData_counts_from_file_witness:
  "(\<exists>r. analysisData (\<lambda>v. Inr NaN)
          (JObj [(str ''summary'',
                  JObj [(str ''totalRows'', JNum 999), (str ''totalColumns'', JNum 7)])])
          example_file = Inr r \<and>
        totalRows (summary r) = 40 \<and> totalColumns (summary r) = 2) \<and>
   (\<exists>r'. analysisData (\<lambda>v. Inr NaN) (JObj []) example_file = Inr r' \<and>
         totalRows (summary r') = 40 \<and> totalColumns (summary r') = 2)"
proof -
  obtain r where r:
    "analysisData (\<lambda>v. Inr NaN)
       (JObj [(str ''summary'',
               JObj [(str ''totalRows'', JNum 999), (str ''totalColumns'', JNum 7)])])
       example_file = Inr r"
    by (simp add: analysisData_def nullish_def js_or_def opt_member_def str_def)
  obtain r' where r': "analysisData (\<lambda>v. Inr NaN) (JObj []) example_file = Inr r'"
    by (simp add: analysisData_def nullish_def js_or_def opt_member_def)
  from analysisData_counts_from_file [OF r r'] r r' show ?thesis
    by (simp add: example_file_def)
qed

text \<open>
  C4. On the empty object the normalizer returns the defaults: score 0.85, the
  default \<open>dataQuality\<close> (no missing values, 0 duplicate rows, no type issues), empty
  \<open>statistics\<close>, \<open>correlations\<close> and \<open>insights\<close>, the default \<open>patterns\<close> (no trends,
  no distributions, no outliers) and the counts of the file. Its \<open>memorySize\<close> is
  computed from the file size alone: with \<open>m = (size * 100 + 512) div 1024\<close>, the
  number of hundredths of a kilobyte nearest to the size, it is the decimal digits
  of \<open>m div 100\<close>, a point, the two digits of \<open>m mod 100\<close>, and \<^verbatim>\<open> KB\<close>. A file of
  2048 characters gives \<^verbatim>\<open>2.00 KB\<close>; files of 0, 128, 1500 and 1048576 characters
  give \<^verbatim>\<open>0.00 KB\<close>, \<^verbatim>\<open>0.13 KB\<close>, \<^verbatim>\<open>1.46 KB\<close> and \<^verbatim>\<open>1024.00 KB\<close>.
\<close>

theorem analysisData_empty_payload:
  "analysisData coerce (JObj []) fd =
     Inr \<lparr>summary =
            \<lparr>totalRows = rows fd,
             totalColumns = columns fd,
             completenessScore = Number 0.85,
             memorySize =
               decimal ((size_chars fd * 100 + 512) div 1024 div 100) @ str ''.'' @
               [digit ((size_chars fd * 100 + 512) div 1024 mod 100 div 10),
                digit ((size_chars fd * 100 + 512) div 1024 mod 10)] @ str '' KB''\<rparr>,
          dataQuality =
            JObj [(str ''missingValues'', JObj []),
                  (str ''duplicateRows'', JNum 0),
                  (str ''dataTypeIssues'', JArr [])],
          statistics = JObj [],
          correlations = JArr [],
          patterns =
            JObj [(str ''trends'', JArr []),
                  (str ''distributions'', JObj []),
                  (str ''outliers'', JArr [])],
          insights = JArr []\<rparr> \<and>
   \<bar>real ((size_chars fd * 100 + 512) div 1024) / 100 - real (size_chars fd) / 1024\<bar> \<le> 1 / 200 \<and>
   memorySize (summary (projr (analysisData coerce (JObj []) (fd\<lparr>size_chars := 2048\<rparr>)))) =
     str ''2.00 KB'' \<and>
   memorySize (summary (projr (analysisData coerce (JObj []) (fd\<lparr>size_chars := 0\<rparr>)))) =
     str ''0.00 KB'' \<and>
   memorySize (summary (projr (analysisData coerce (JObj []) (fd\<lparr>size_chars := 128\<rparr>)))) =
     str ''0.13 KB'' \<and>
   memorySize (summary (projr (analysisData coerce (JObj []) (fd\<lparr>size_chars := 1500\<rparr>)))) =
     str ''1.46 KB'' \<and>
   memorySize (summary (projr (analysisData coerce (JObj []) (fd\<lparr>size_chars := 1048576\<rparr>)))) =
     str ''1024.00 KB''"
proof (intro conjI)
  show "analysisData coerce (JObj []) fd =
     Inr \<lparr>summary =
            \<lparr>totalRows = rows fd,
             totalColumns = columns fd,
             completenessScore = Number 0.85,
             memorySize =
               decimal ((size_chars fd * 100 + 512) div 1024 div 100) @ str ''.'' @
               [digit ((size_chars fd * 100 + 512) div 1024 mod 100 div 10),
                digit ((size_chars fd * 100 + 512) div 1024 mod 10)] @ str '' KB''\<rparr>,
          dataQuality =
            JObj [(str ''missingValues'', JObj []),
                  (str ''duplicateRows'', JNum 0),
                  (str ''dataTypeIssues'', JArr [])],
          statistics = JObj [],
          correlations = JArr [],
          patterns =
            JObj [(str ''trends'', JArr []),
                  (str ''distributions'', JObj []),
                  (str ''outliers'', JArr [])],
          insights = JArr []\<rparr>"
    by (simp add: analysisData_def nullish_def js_or_def opt_member_def toFixed2_nat Let_def
          del: decimal.simps)
  show "\<bar>real ((size_chars fd * 100 + 512) div 1024) / 100 - real (size_chars fd) / 1024\<bar> \<le> 1 / 200"
    by (rule hundredths_nearest)
qed (simp_all only: memorySize_empty_payload,
     simp_all add: toFixed2_values [simplified] str_def)

text \<open>
  C5 (as amended). \<open>rows\<close> is the number of lines after the first of the text with the
  white space at both ends removed: blank lines at the end of the text are not
  counted, blank lines between other lines are.
\<close>

theorem parseCSV_rows_trimmed:
  "\<exists>fd. parseCSV text file_name = Inr fd \<and>
        rows fd = length (tl (js_split newline (trim text)))"
  by (simp add: parseCSV_Inr)

theorem parseCSV_rows_trimmed_witness:
  "\<exists>fd. parseCSV (str ''a'' @ [newline, newline] @ str ''1'' @ [newline, newline]) (str ''t.csv'') =
          Inr fd \<and>
        rows fd = 2"
proof -
  have "length (tl (js_split newline
          (trim (str ''a'' @ [newline, newline] @ str ''1'' @ [newline, newline])))) = 2"
    by (simp add: str_def newline_def trim_def is_whitespace_def)
  with parseCSV_rows_trimmed
         [of "str ''a'' @ [newline, newline] @ str ''1'' @ [newline, newline]" "str ''t.csv''"]
  show ?thesis by simp
qed

text \<open>
  C5 as the specification states it fails on \<^verbatim>\<open>a\n1\n\n\<close>, a text that ends with two
  newlines: splitting it at its newlines leaves three lines after the header (two of
  them blank lines at the end), and \<open>rows\<close> is 1.
\<close>

theorem parseCSV_rows_trimmed_counterexample:
  "tl (js_split newline (str ''a'' @ [newline] @ str ''1'' @ [newline, newline])) =
     [str ''1'', [], []] \<and>
   isl (parseCSV (str ''a'' @ [newline] @ str ''1'' @ [newline, newline]) (str ''t.csv'')) = False \<and>
   rows (projr (parseCSV (str ''a'' @ [newline] @ str ''1'' @ [newline, newline]) (str ''t.csv''))) = 1 \<and>
   length [str ''1'', [], []] \<noteq> (1 :: nat)"
  by (simp add: parseCSV_Inr) (simp add: str_def newline_def trim_def is_whitespace_def)

text \<open>
  C6 (the code departs from the claim). With the header row \<^verbatim>\<open>__proto__,b\<close> and the
  data line \<^verbatim>\<open>1,2\<close> the keys of the row are not the headers: the row has the one
  key \<^verbatim>\<open>b\<close>.
\<close>

theorem row_keys_proto:
  "headers (projr (parseCSV (str ''__proto__,b'' @ [newline] @ str ''1,2'') (str ''t.csv''))) =
     [str ''__proto__'', str ''b''] \<and>
   map dom (preview (projr (parseCSV (str ''__proto__,b'' @ [newline] @ str ''1,2'') (str ''t.csv'')))) =
     [{str ''b''}] \<and>
   {str ''b''} \<noteq> set [str ''__proto__'', str ''b'']"
  by (simp add: parseCSV_Inr)
     (simp add: row_of_keys str_def newline_def comma_def trim_def is_whitespace_def)

text \<open>
  C7 (the code departs from the claim). With the header row \<^verbatim>\<open>__proto__,__proto__\<close>
  and the data line \<^verbatim>\<open>1,2\<close> the repeated header is bound to no value, where the
  claim binds it to \<^verbatim>\<open>2\<close>.
\<close>

theorem row_duplicate_proto:
  "headers (projr (parseCSV (str ''__proto__,__proto__'' @ [newline] @ str ''1,2'') (str ''t.csv''))) =
     [str ''__proto__'', str ''__proto__''] \<and>
   map (\<lambda>r. r (str ''__proto__''))
     (preview (projr (parseCSV (str ''__proto__,__proto__'' @ [newline] @ str ''1,2'') (str ''t.csv'')))) =
     [None]"
  by (simp add: parseCSV_Inr)
     (simp add: str_def newline_def comma_def trim_def is_whitespace_def row_of_def obj_set_def
        enumerate_eq_zip upt_rec)

text \<open>
  C8. \<^verbatim>\<open>analyzeData\<close> leaves the committed analysis as it was when \<^verbatim>\<open>fetch\<close> rejects,
  when the body does not decode, when the success flag or the payload is missing,
  and when a string payload does not parse. When the committed analysis changes, the
  flag was set, the payload was present and decoded, and the new analysis is the
  normalizer's result.
\<close>

theorem analyzeData_commits_only_on_success:
  "analysis (analyzeData JSON_parse coerce FetchRejected st) = analysis st \<and>
   analysis (analyzeData JSON_parse coerce BodyRejected st) = analysis st \<and>
   (\<not> (truthy (member data (str ''success'')) \<and> truthy (member data (str ''response''))) \<longrightarrow>
      analysis (analyzeData JSON_parse coerce (Body data) st) = analysis st) \<and>
   (parsedData_of JSON_parse (member data (str ''response'')) = Inl e \<longrightarrow>
      analysis (analyzeData JSON_parse coerce (Body data) st) = analysis st) \<and>
   (analysis (analyzeData JSON_parse coerce outcome st) \<noteq> analysis st \<longrightarrow>
      (\<exists>fd body parsedData a.
         fileData st = Some fd \<and> outcome = Body body \<and>
         truthy (member body (str ''success'')) \<and> truthy (member body (str ''response'')) \<and>
         parsedData_of JSON_parse (member body (str ''response'')) = Inr parsedData \<and>
         analysisData coerce parsedData fd = Inr a \<and>
         analysis (analyzeData JSON_parse coerce outcome st) = Some a))"
proof (intro conjI impI)
  show "analysis (analyzeData JSON_parse coerce FetchRejected st) = analysis st"
    by (simp add: analysis_analyzeData analyze_try_def split: option.splits)
  show "analysis (analyzeData JSON_parse coerce BodyRejected st) = analysis st"
    by (simp add: analysis_analyzeData analyze_try_def split: option.splits)
  show "analysis (analyzeData JSON_parse coerce (Body data) st) = analysis st"
    if "\<not> (truthy (member data (str ''success'')) \<and> truthy (member data (str ''response'')))"
    using that by (auto simp: analysis_analyzeData analyze_try_def split: option.splits sum.splits)
  show "analysis (analyzeData JSON_parse coerce (Body data) st) = analysis st"
    if "parsedData_of JSON_parse (member data (str ''response'')) = Inl e"
    using that by (auto simp: analysis_analyzeData analyze_try_def split: option.splits sum.splits)
  show "\<exists>fd body parsedData a.
         fileData st = Some fd \<and> outcome = Body body \<and>
         truthy (member body (str ''success'')) \<and> truthy (member body (str ''response'')) \<and>
         parsedData_of JSON_parse (member body (str ''response'')) = Inr parsedData \<and>
         analysisData coerce parsedData fd = Inr a \<and>
         analysis (analyzeData JSON_parse coerce outcome st) = Some a"
    if "analysis (analyzeData JSON_parse coerce outcome st) \<noteq> analysis st"
    using that
    by (cases outcome)
      (auto simp: analysis_analyzeData analyze_try_def
            split: option.splits sum.splits if_splits)
qed

theorem analyzeData_commits_only_on_success_witness:
  "analysis (analyzeData (\<lambda>s. Inl SyntaxError) (\<lambda>v. Inr NaN) FetchRejected example_state) =
     Some example_result \<and>
   analysis (analyzeData (\<lambda>s. Inl SyntaxError) (\<lambda>v. Inr NaN)
      (Body (JObj [(str ''success'', JBool False)])) example_state) = Some example_result \<and>
   analysis (analyzeData (\<lambda>s. Inl SyntaxError) (\<lambda>v. Inr NaN)
      (Body (JObj [(str ''success'', JBool True), (str ''response'', JStr (str ''{''))]))
      example_state) = Some example_result \<and>
   analysis (analyzeData (\<lambda>s. Inl SyntaxError) (\<lambda>v. Inr NaN)
      (Body (JObj [(str ''success'', JBool True), (str ''response'', JObj [])]))
      example_state) \<noteq> Some example_result"
proof -
  let ?J = "\<lambda>s :: jsstring. Inl SyntaxError :: js_error + jsval"
  let ?c = "\<lambda>v :: jsval. Inr NaN :: js_error + js_number"
  let ?flag = "JObj [(str ''success'', JBool False)]"
  let ?malformed = "JObj [(str ''success'', JBool True), (str ''response'', JStr (str ''{''))]"
  let ?good = "JObj [(str ''success'', JBool True), (str ''response'', JObj [])]"
  have prior: "analysis example_state = Some example_result"
    by (simp add: example_state_def)
  have flag: "\<not> (truthy (member ?flag (str ''success'')) \<and> truthy (member ?flag (str ''response'')))"
    by (simp add: str_def)
  have malformed: "parsedData_of ?J (member ?malformed (str ''response'')) = Inl SyntaxError"
    by (simp add: parsedData_of_def str_def)
  have good: "analysis (analyzeData ?J ?c (Body ?good) example_state) \<noteq> analysis example_state"
    by (simp add: analysis_analyzeData analyze_try_def example_state_def parsedData_of_def
        analysisData_def nullish_def js_or_def opt_member_def example_result_def str_def)
  from analyzeData_commits_only_on_success
         [where JSON_parse = ?J and coerce = ?c and st = example_state and data = ?flag
            and outcome = "Body ?good"]
       analyzeData_commits_only_on_success
         [where JSON_parse = ?J and coerce = ?c and st = example_state and data = ?malformed
            and e = SyntaxError and outcome = "Body ?good"]
       prior flag malformed good
  show ?thesis by simp
qed

text \<open>
  C9. \<^verbatim>\<open>split\<close> never returns an empty array, and \<^verbatim>\<open>parseCSV\<close> returns a FileData
  for every text; the empty text gives no rows, one column and the one empty header;
  \<^verbatim>\<open>handleFileUpload\<close> never takes its \<^verbatim>\<open>catch\<close> branch: it stores the parsed file
  and leaves no error message.
\<close>

theorem parseCSV_total:
  "js_split newline (trim text) \<noteq> [] \<and>
   (\<exists>fd. parseCSV text file_name = Inr fd) \<and>
   parseCSV [] file_name =
     Inr \<lparr>name = file_name, size_chars = 0, rows = 0, columns = 1, headers = [[]], preview = []\<rparr> \<and>
   error (handleFileUpload (Some (file_name, text)) st) = None \<and>
   (\<exists>fd. fileData (handleFileUpload (Some (file_name, text)) st) = Some fd)"
  by (simp add: parseCSV_Inr handleFileUpload_def trim_def js_split_not_Nil)

text \<open>
  C10. The functions of the second page variant return what those of the first
  return, on every text and file name and on every payload and FileData.
\<close>

theorem variants_equal:
  "parseCSV_alt text file_name = parseCSV text file_name \<and>
   analysisData_alt coerce parsedData fd = analysisData coerce parsedData fd"
  unfolding parseCSV_alt_def parseCSV_def analysisData_alt_def analysisData_def row_of_alt_eq
  by (rule conjI) (rule refl)+

end
